theory Spec2Isabelle
  imports Main
begin

section \<open>Text: Python strings as lists of code points\<close>

text \<open>
  A Python \<open>str\<close> is a sequence of Unicode code points, and the program depends on
  that: it strips U+FEFF, and \<open>\<bslash>s\<close>, \<open>\<bslash>w\<close>, \<open>str.strip\<close> and \<open>str.lower\<close> follow the
  Unicode tables. So a character is its code point, a natural number, and a string is a
  list of them. An ASCII literal of the source is written \<open>u ''...''\<close>.
\<close>

type_synonym ustring = "nat list"

definition u :: "string \<Rightarrow> ustring" where
  "u s = map of_char s"

definition isspace :: "nat \<Rightarrow> bool" where
  \<comment> \<open>\<open>str.isspace\<close> of one character, which is also \<open>\<bslash>s\<close> of a str pattern and
      what \<open>str.strip()\<close> removes: U+0009..000D, U+001C..0020, U+0085, U+00A0, U+1680,
      U+2000..200A, U+2028, U+2029, U+202F, U+205F, U+3000.\<close>
  "isspace c \<longleftrightarrow>
     (9 \<le> c \<and> c \<le> 13) \<or> (28 \<le> c \<and> c \<le> 32) \<or> c = 133 \<or> c = 160 \<or> c = 5760 \<or>
     (8192 \<le> c \<and> c \<le> 8202) \<or> c = 8232 \<or> c = 8233 \<or> c = 8239 \<or> c = 8287 \<or>
     c = 12288"

definition ascii_alnum :: "nat \<Rightarrow> bool" where
  "ascii_alnum c \<longleftrightarrow> (48 \<le> c \<and> c \<le> 57) \<or> (65 \<le> c \<and> c \<le> 90) \<or> (97 \<le> c \<and> c \<le> 122)"

definition ascii_lower :: "nat \<Rightarrow> nat" where
  "ascii_lower c = (if 65 \<le> c \<and> c \<le> 90 then c + 32 else c)"

text \<open>
  What the program takes from its platform and from files that are not part of the
  source: the Unicode tables of the Python runtime beyond ASCII, \<open>int\<close> of a string
  that is not a short ASCII one, the temporary and home directories, \<open>os.path.join\<close>,
  and the string table \<open>locale/<language>.json\<close> as \<open>get_string\<close> reads it (key and
  keyword arguments to the formatted text).
\<close>

record platform =
  isalnum :: "nat \<Rightarrow> bool"
  str_lower :: "ustring \<Rightarrow> ustring"
  str_to_int :: "ustring \<Rightarrow> int option"
  gettempdir :: ustring
  expanduser_home :: ustring
  path_join :: "ustring \<Rightarrow> ustring \<Rightarrow> ustring"
  lang_data :: "ustring \<Rightarrow> (ustring \<times> ustring) list \<Rightarrow> ustring"

definition is_word :: "platform \<Rightarrow> nat \<Rightarrow> bool" where
  \<comment> \<open>\<open>\<bslash>w\<close> of a str pattern: \<open>str.isalnum\<close> or the underscore. On ASCII that is
      \<open>[A-Za-z0-9_]\<close>; beyond, the runtime's table decides.\<close>
  "is_word P c \<longleftrightarrow> (if c < 128 then ascii_alnum c \<or> c = 95 else isalnum P c)"

definition lower :: "platform \<Rightarrow> ustring \<Rightarrow> ustring" where
  \<comment> \<open>\<open>str.lower()\<close>: character by character on an ASCII string; the runtime's
      (context-sensitive) mapping otherwise.\<close>
  "lower P s = (if \<forall>c \<in> set s. c < 128 then map ascii_lower s else str_lower P s)"

definition strip :: "ustring \<Rightarrow> ustring" where
  "strip s = rev (dropWhile isspace (rev (dropWhile isspace s)))"

definition ascii_space :: "nat \<Rightarrow> bool" where
  \<comment> \<open>the whitespace that \<open>int\<close> skips around an ASCII literal: tab to carriage return,
      and the space\<close>
  "ascii_space c \<longleftrightarrow> (9 \<le> c \<and> c \<le> 13) \<or> c = 32"

definition ascii_digit :: "nat \<Rightarrow> bool" where
  "ascii_digit c \<longleftrightarrow> 48 \<le> c \<and> c \<le> 57"

fun int_digits :: "nat \<Rightarrow> ustring \<Rightarrow> nat option" where
  \<comment> \<open>the rest of a decimal literal after its first digit, the value read so far in
      the first argument: digits, one underscore at a time and only between two digits,
      then nothing but whitespace\<close>
  "int_digits n [] = Some n"
| "int_digits n [c] =
     (if ascii_digit c then Some (10 * n + (c - 48))
      else if ascii_space c then Some n else None)"
| "int_digits n (c # d # ds) =
     (if ascii_digit c then int_digits (10 * n + (c - 48)) (d # ds)
      else if c = 95 then (if ascii_digit d then int_digits (10 * n + (d - 48)) ds else None)
      else if list_all ascii_space (c # d # ds) then Some n else None)"

definition ascii_int :: "ustring \<Rightarrow> int option" where
  \<comment> \<open>\<open>int(s)\<close> of an ASCII string, \<open>None\<close> where it raises ValueError: whitespace, a
      sign (43 is the plus, 45 the minus), then the literal\<close>
  "ascii_int s =
     (let t = dropWhile ascii_space s;
          negative = (case t of [] \<Rightarrow> False | c # _ \<Rightarrow> c = 45);
          literal = (case t of [] \<Rightarrow> [] | c # cs \<Rightarrow> if c = 43 \<or> c = 45 then cs else t)
      in case literal of
           [] \<Rightarrow> None
         | d # ds \<Rightarrow>
             if ascii_digit d
             then map_option (\<lambda>n. if negative then - int n else int n) (int_digits (d - 48) ds)
             else None)"

definition py_int :: "platform \<Rightarrow> ustring \<Rightarrow> int option" where
  \<comment> \<open>\<open>int(s)\<close>: as above on an ASCII string of at most 640 characters, which no limit
      on the number of digits can concern; the runtime's otherwise\<close>
  "py_int P s =
     (if (\<forall>c \<in> set s. c < 128) \<and> length s \<le> 640 then ascii_int s else str_to_int P s)"

definition lstrip :: "ustring \<Rightarrow> ustring" where
  "lstrip s = dropWhile isspace s"

definition lstrip_chars :: "ustring \<Rightarrow> ustring \<Rightarrow> ustring" where
  \<comment> \<open>\<open>s.lstrip(chars)\<close>\<close>
  "lstrip_chars chars s = dropWhile (\<lambda>c. c \<in> set chars) s"

definition startswith :: "ustring \<Rightarrow> ustring \<Rightarrow> bool" where
  "startswith s p \<longleftrightarrow> take (length p) s = p"

fun contains :: "ustring \<Rightarrow> ustring \<Rightarrow> bool" where
  \<comment> \<open>\<open>p in s\<close> on strings\<close>
  "contains [] p = (p = [])"
| "contains (c # cs) p = (startswith (c # cs) p \<or> contains cs p)"

fun split_on :: "nat \<Rightarrow> ustring \<Rightarrow> ustring list" where
  \<comment> \<open>\<open>s.split(sep)\<close> for a separator of one character: never an empty list\<close>
  "split_on sep [] = [[]]"
| "split_on sep (c # cs) =
     (if c = sep then [] # split_on sep cs
      else (let r = split_on sep cs in (c # hd r) # tl r))"

function re_split_ws2 :: "ustring \<Rightarrow> ustring \<Rightarrow> ustring list" where
  \<comment> \<open>\<open>re.split(r'\<bslash>s{2,}', s)\<close>, the field read so far in the first argument: a
      separator is a maximal run of two or more whitespace characters, a single one
      stays in its field\<close>
  "re_split_ws2 field [] = [field]"
| "re_split_ws2 field (c # cs) =
     (if isspace c \<and> (case cs of [] \<Rightarrow> False | d # _ \<Rightarrow> isspace d)
      then field # re_split_ws2 [] (dropWhile isspace cs)
      else re_split_ws2 (field @ [c]) cs)"
  by pat_completeness auto
termination
  by (relation "measure (\<lambda>(field, s). length s)")
     (auto simp: le_imp_less_Suc length_dropWhile_le)

definition re_split :: "ustring \<Rightarrow> ustring list" where
  "re_split s = re_split_ws2 [] s"

definition re_sub_name :: "platform \<Rightarrow> ustring \<Rightarrow> ustring" where
  \<comment> \<open>\<open>re.sub(r'[^\<bslash>w.-]', '', s)\<close>: keep word characters, the dot and the hyphen\<close>
  "re_sub_name P s = filter (\<lambda>c. is_word P c \<or> c = 46 \<or> c = 45) s"

definition replace_nul :: "ustring \<Rightarrow> ustring" where
  \<comment> \<open>\<open>s.replace('\<bslash>x00', '')\<close>\<close>
  "replace_nul s = filter (\<lambda>c. c \<noteq> 0) s"


section \<open>The application state and its surroundings\<close>

text \<open>
  A row of the tree view is the tuple \<open>values=(name, state, version)\<close> that
  \<open>populate_wsl_list\<close> inserts. The state keeps what the methods read and write: the
  rows, the values of the selected item (selection mode \<open>browse\<close>: at most one), the
  four buttons (\<open>True\<close> is \<open>"normal"\<close>, \<open>False\<close> is \<open>"disabled"\<close>), the shortcut
  field and the attribute \<open>rename_result\<close>, absent until a worker sets it. \<open>history\<close>
  is not a field of the program: it lists, in order, what the program did to its
  surroundings.

  The widget keeps the strings that were inserted, but \<open>Treeview.item\<close> does not give
  them back as they are: each value goes through \<open>_convert_stringval\<close> of
  \<open>tkinter.ttk\<close>, which returns \<open>int(value)\<close> where that does not raise and the string
  otherwise. So a name such as \<open>2024\<close>, \<open>007\<close> or \<open>-5\<close> is read back as an integer.
\<close>

type_synonym row = "ustring \<times> ustring \<times> ustring"

datatype pyvalue = Py_str ustring | Py_int int

datatype effect =
    Run "ustring list"
  | Remove ustring
  | Makedirs ustring
  | Thread_start pyvalue ustring
  | Showerror ustring ustring
  | Showinfo ustring ustring

record app =
  tree :: "row list"
  selection :: "row option"
  terminal_button :: bool
  start_button :: bool
  rename_button :: bool
  stop_button :: bool
  shortcut_command_var :: ustring
  rename_result :: "ustring option"
  history :: "effect list"

text \<open>
  How a subprocess ends, as \<open>run_command\<close> tells the cases apart: it completes with
  exit status 0 and its standard output, the executable is missing, it exits with
  another status and its standard error, or \<open>subprocess.run\<close> raises something that
  \<open>run_command\<close> does not catch. The surroundings answer each call from what has
  happened so far; \<open>os.remove\<close> and \<open>os.makedirs\<close> answer \<open>False\<close> when they raise.
\<close>

datatype proc_result =
    Completed ustring
  | FileNotFoundError
  | CalledProcessError ustring
  | OtherException

record world =
  subprocess_run :: "effect list \<Rightarrow> ustring list \<Rightarrow> proc_result"
  os_remove :: "effect list \<Rightarrow> ustring \<Rightarrow> bool"
  os_makedirs :: "effect list \<Rightarrow> ustring \<Rightarrow> bool"

definition get_string :: "platform \<Rightarrow> ustring \<Rightarrow> (ustring \<times> ustring) list \<Rightarrow> ustring" where
  \<comment> \<open>\<open>self.lang_data.get(key, fallback).format(**kwargs)\<close>\<close>
  "get_string P key kwargs = lang_data P key kwargs"

definition convert_stringval :: "platform \<Rightarrow> ustring \<Rightarrow> pyvalue" where
  \<comment> \<open>\<open>_convert_stringval\<close> of \<open>tkinter.ttk\<close>\<close>
  "convert_stringval P value =
     (case py_int P value of Some n \<Rightarrow> Py_int n | None \<Rightarrow> Py_str value)"

definition item_values :: "platform \<Rightarrow> row \<Rightarrow> pyvalue \<times> pyvalue \<times> pyvalue" where
  \<comment> \<open>\<open>self.tree.item(i)['values']\<close> for an item with the given values\<close>
  "item_values P r =
     (case r of (name, state, version) \<Rightarrow>
        (convert_stringval P name, convert_stringval P state, convert_stringval P version))"

definition showerror :: "app \<Rightarrow> ustring \<Rightarrow> ustring \<Rightarrow> app" where
  "showerror a title message = a\<lparr>history := history a @ [Showerror title message]\<rparr>"

definition showinfo :: "app \<Rightarrow> ustring \<Rightarrow> ustring \<Rightarrow> app" where
  "showinfo a title message = a\<lparr>history := history a @ [Showinfo title message]\<rparr>"

definition remove :: "world \<Rightarrow> app \<Rightarrow> ustring \<Rightarrow> bool \<times> app" where
  \<comment> \<open>\<open>os.remove(path)\<close>; \<open>False\<close>: it raised\<close>
  "remove W a path = (os_remove W (history a) path, a\<lparr>history := history a @ [Remove path]\<rparr>)"

definition makedirs :: "world \<Rightarrow> app \<Rightarrow> ustring \<Rightarrow> bool \<times> app" where
  \<comment> \<open>\<open>os.makedirs(path, exist_ok=True)\<close>; \<open>False\<close>: it raised\<close>
  "makedirs W a path =
     (os_makedirs W (history a) path, a\<lparr>history := history a @ [Makedirs path]\<rparr>)"

section \<open>The methods\<close>

definition run_command :: "platform \<Rightarrow> world \<Rightarrow> app \<Rightarrow> ustring list \<Rightarrow> ustring option \<times> app" where
  \<comment> \<open>\<open>None\<close>: an exception other than the two caught leaves the method\<close>
  "run_command P W a command =
     (let a' = a\<lparr>history := history a @ [Run command]\<rparr> in
      case subprocess_run W (history a) command of
        Completed stdout \<Rightarrow> (Some stdout, a')
      | FileNotFoundError \<Rightarrow>
          (Some (u ''Error: '' @ get_string P (u ''error_wsl_not_found'') []), a')
      | CalledProcessError stderr \<Rightarrow> (Some (u ''Error: Command Error'' @ [10] @ stderr), a')
      | OtherException \<Rightarrow> (None, a'))"

definition shortcut_command :: "ustring \<Rightarrow> ustring" where
  \<comment> \<open>the \<open>command\<close> of \<open>on_item_select\<close>; 34 is the double quote\<close>
  "shortcut_command distro_name =
     (if contains distro_name (u '' '') then u ''wsl.exe -d '' @ [34] @ distro_name @ [34]
      else u ''wsl.exe -d '' @ distro_name)"

definition on_item_select :: "platform \<Rightarrow> app \<Rightarrow> bool \<times> app" where
  \<comment> \<open>\<open>False\<close>: the method raised. For a name read back as an integer the test
      \<open>' ' in distro_name\<close> raises TypeError, after the buttons have been set and before
      the shortcut is.\<close>
  "on_item_select P a =
     (case selection a of
        Some selected_item \<Rightarrow>
          (case item_values P selected_item of
             (distro_name, distro_state, _) \<Rightarrow>
               (let a1 = a\<lparr>terminal_button := True\<rparr>;
                    a2 = (if distro_state = Py_str (u ''Stopped'')
                          then a1\<lparr>start_button := True, rename_button := True,
                                  stop_button := False\<rparr>
                          else a1\<lparr>start_button := False, rename_button := False,
                                  stop_button := True\<rparr>)
                in case distro_name of
                     Py_int n \<Rightarrow> (False, a2)
                   | Py_str distro_name \<Rightarrow>
                       (True, a2\<lparr>shortcut_command_var := shortcut_command distro_name\<rparr>)))
      | None \<Rightarrow>
          (True,
           a\<lparr>terminal_button := False, start_button := False, stop_button := False,
             rename_button := False, shortcut_command_var := []\<rparr>))"

definition parse_line :: "platform \<Rightarrow> ustring \<Rightarrow> row option" where
  \<comment> \<open>the body of the loop of \<open>populate_wsl_list\<close>: the row it inserts for one line,
      if it inserts one; 65279 is U+FEFF, 42 the asterisk\<close>
  "parse_line P line =
     (let cleaned_line = lstrip_chars [65279] (strip line) in
      if cleaned_line = [] then None
      else
        (let processed_line =
               (if startswith cleaned_line [42] then lstrip (tl cleaned_line)
                else cleaned_line);
             parts = re_split processed_line
         in case parts of
              [p0, p1, p2] \<Rightarrow>
                Some (re_sub_name P p0, replace_nul (strip p1), replace_nul (strip p2))
            | _ \<Rightarrow> None))"

fun insert_lines :: "platform \<Rightarrow> ustring list \<Rightarrow> row list \<Rightarrow> row list" where
  \<comment> \<open>the loop over the lines, each row inserted at \<open>"end"\<close>\<close>
  "insert_lines P [] t = t"
| "insert_lines P (line # lines) t =
     insert_lines P lines (case parse_line P line of None \<Rightarrow> t | Some r \<Rightarrow> t @ [r])"

definition populate_wsl_list :: "platform \<Rightarrow> world \<Rightarrow> app \<Rightarrow> app" where
  "populate_wsl_list P W a =
     (let a1 = a\<lparr>tree := [], selection := None\<rparr>;
          (output, a2) = run_command P W a1 [u ''wsl'', u ''--list'', u ''--verbose'']
      in case output of
           None \<Rightarrow> a2
         | Some output \<Rightarrow>
             if startswith output (u ''Error:'') then a2
             else
               (let lines = tl (split_on 10 (strip output))
                in snd (on_item_select P (a2\<lparr>tree := insert_lines P lines (tree a2)\<rparr>))))"

definition export_file :: "platform \<Rightarrow> ustring \<Rightarrow> ustring" where
  \<comment> \<open>the local \<open>export_file\<close> of \<open>_rename_worker\<close>\<close>
  "export_file P old_name =
     (let temp_dir = gettempdir P in path_join P temp_dir (old_name @ u ''_export.tar''))"

definition import_dir :: "platform \<Rightarrow> ustring \<Rightarrow> ustring" where
  \<comment> \<open>the local \<open>import_dir\<close> of \<open>_rename_worker\<close>\<close>
  "import_dir P new_name =
     (let docs_path = path_join P (expanduser_home P) (u ''Documents'')
      in path_join P (path_join P docs_path (u ''WSL_Distros'')) new_name)"

definition rename_worker :: "platform \<Rightarrow> world \<Rightarrow> app \<Rightarrow> ustring \<Rightarrow> ustring \<Rightarrow> app" where
  \<comment> \<open>\<open>_rename_worker\<close>; where an exception leaves it, the state is as it was then\<close>
  "rename_worker P W a old_name new_name =
     (let (result, a1) =
            run_command P W a [u ''wsl'', u ''--export'', old_name, export_file P old_name]
      in case result of
           None \<Rightarrow> a1
         | Some result \<Rightarrow>
      if result \<noteq> [] \<and> startswith result (u ''Error:'')
      then a1\<lparr>rename_result := Some (u ''Export failed:'' @ [10] @ result)\<rparr>
      else
     (let (result, a2) = run_command P W a1 [u ''wsl'', u ''--unregister'', old_name]
      in case result of
           None \<Rightarrow> a2
         | Some result \<Rightarrow>
      if result \<noteq> [] \<and> startswith result (u ''Error:'')
      then snd (remove W (a2\<lparr>rename_result := Some (u ''Unregister failed:'' @ [10] @ result)\<rparr>)
                  (export_file P old_name))
      else
     (let (made, a3) = makedirs W a2 (import_dir P new_name)
      in if \<not> made then a3
         else
     (let (result, a4) =
            run_command P W a3
              [u ''wsl'', u ''--import'', new_name, import_dir P new_name,
               export_file P old_name]
      in case result of
           None \<Rightarrow> a4
         | Some result \<Rightarrow>
      if result \<noteq> [] \<and> startswith result (u ''Error:'')
      then snd (remove W (a4\<lparr>rename_result := Some (u ''Import failed:'' @ [10] @ result)\<rparr>)
                  (export_file P old_name))
      else
     (let (removed, a5) = remove W a4 (export_file P old_name)
      in if \<not> removed then a5
         else a5\<lparr>rename_result :=
                   Some (get_string P (u ''rename_success_message'')
                           [(u ''new_name'', new_name)])\<rparr>)))))"

definition check_rename_status :: "platform \<Rightarrow> world \<Rightarrow> app \<Rightarrow> app" where
  \<comment> \<open>the branch taken once the worker thread has ended\<close>
  "check_rename_status P W a =
     (let a1 =
            (case rename_result a of
               None \<Rightarrow> a
             | Some message \<Rightarrow>
                 if contains (lower P message) (u ''failed'')
                 then showerror a (get_string P (u ''error_title'') []) message
                 else showinfo a (u ''Success'') message)
      in populate_wsl_list P W a1)"


section \<open>Sample surroundings\<close>

text \<open>
  Concrete surroundings on which the general statements are instantiated. The platform
  has the Unicode tables of the Latin-1 Supplement block (U+0080..U+00FF) and treats
  nothing beyond it as alphanumeric or as a digit; its \<open>int\<close> puts no limit on the
  number of digits; its string table has one entry, so that every other key falls back
  to itself as \<open>get_string\<close> has it. The world answers a command
  by its subcommand (the second word) and lets every file operation succeed.
\<close>

definition latin1_isalnum :: "nat \<Rightarrow> bool" where
  \<comment> \<open>\<open>str.isalnum\<close> on U+0080..U+00FF: the letters, the superscript digits, the
      fractions and the ordinal indicators\<close>
  "latin1_isalnum c \<longleftrightarrow>
     c = 170 \<or> c = 178 \<or> c = 179 \<or> c = 181 \<or> c = 185 \<or> c = 186 \<or>
     (188 \<le> c \<and> c \<le> 190) \<or> (192 \<le> c \<and> c \<le> 214) \<or> (216 \<le> c \<and> c \<le> 246) \<or>
     (248 \<le> c \<and> c \<le> 255)"

definition latin1_lower :: "nat \<Rightarrow> nat" where
  "latin1_lower c =
     (if (65 \<le> c \<and> c \<le> 90) \<or> (192 \<le> c \<and> c \<le> 214) \<or> (216 \<le> c \<and> c \<le> 222)
      then c + 32 else c)"

definition sample_lang_data :: "ustring \<Rightarrow> (ustring \<times> ustring) list \<Rightarrow> ustring" where
  "sample_lang_data key kwargs =
     (if key = u ''rename_success_message''
      then u ''Renamed to '' @ (case map_of kwargs (u ''new_name'') of
                                  Some new_name \<Rightarrow> new_name | None \<Rightarrow> [])
      else key)"

definition sample_platform :: platform where
  \<comment> \<open>92 is the backslash\<close>
  "sample_platform =
     \<lparr>isalnum = latin1_isalnum,
      str_lower = map latin1_lower,
      str_to_int = (\<lambda>s. ascii_int (map (\<lambda>c. if 127 \<le> c \<and> isspace c then 32 else c) s)),
      gettempdir = u ''C:'' @ [92] @ u ''Temp'',
      expanduser_home = u ''C:'' @ [92] @ u ''Users'' @ [92] @ u ''me'',
      path_join = (\<lambda>a b. a @ [92] @ b),
      lang_data = sample_lang_data\<rparr>"

definition scripted_world :: "(ustring \<Rightarrow> proc_result) \<Rightarrow> world" where
  "scripted_world answer =
     \<lparr>subprocess_run = (\<lambda>h command. answer (hd (tl command))),
      os_remove = (\<lambda>h path. True),
      os_makedirs = (\<lambda>h path. True)\<rparr>"

definition unregister_fails :: "ustring \<Rightarrow> proc_result" where
  \<comment> \<open>every command succeeds and prints nothing, but \<open>--unregister\<close> exits with an
      error\<close>
  "unregister_fails subcommand =
     (if subcommand = u ''--unregister'' then CalledProcessError (u ''denied'')
      else Completed [])"

definition startup :: app where
  \<comment> \<open>the state before the first refresh\<close>
  "startup =
     \<lparr>tree = [], selection = None, terminal_button = False, start_button = False,
      rename_button = False, stop_button = False, shortcut_command_var = [],
      rename_result = None, history = []\<rparr>"



definition numeric_listing :: ustring where
  "numeric_listing = u ''NAME STATE VERSION'' @ [10] @ u ''* 2024   Stopped   2'' @ [10]"

definition example_listing :: ustring where
  "example_listing =
     u ''NAME STATE VERSION'' @ [10] @ u ''  Ubuntu    Stopped    2'' @ [10] @
     u ''* Debian     Running    1'' @ [10]"

definition marker_moved_listing :: ustring where
  \<comment> \<open>\<open>example_listing\<close> with the asterisk on the other line\<close>
  "marker_moved_listing =
     u ''NAME STATE VERSION'' @ [10] @ u ''* Ubuntu    Stopped    2'' @ [10] @
     u ''  Debian     Running    1'' @ [10]"

definition name_class :: "nat \<Rightarrow> bool" where
  \<comment> \<open>the class \<open>[A-Za-z0-9._-]\<close>\<close>
  "name_class c \<longleftrightarrow> ascii_alnum c \<or> c = 46 \<or> c = 95 \<or> c = 45"

definition matches_name_class :: "ustring \<Rightarrow> bool" where
  \<comment> \<open>the whole string is in \<open>[A-Za-z0-9._-]*\<close>\<close>
  "matches_name_class s \<longleftrightarrow> list_all name_class s"

section \<open>Whitespace at the ends of a string\<close>

lemma dropWhile_same_length:
  "length (dropWhile Q xs) = length xs \<Longrightarrow> dropWhile Q xs = xs"
proof (cases xs)
  case Nil
  then show ?thesis by simp
next
  case (Cons a list)
  assume len: "length (dropWhile Q xs) = length xs"
  show ?thesis
  proof (cases "Q a")
    case True
    with Cons len length_dropWhile_le [of Q list] show ?thesis by simp
  next
    case False
    with Cons show ?thesis by simp
  qed
qed

lemma strip_fixed_ends:
  assumes fixed: "strip s = s" and ne: "s \<noteq> []"
  shows "\<not> isspace (hd s) \<and> \<not> isspace (last s)"
proof -
  let ?d = "dropWhile isspace s"
  have "length s = length (dropWhile isspace (rev ?d))"
    using arg_cong [OF fixed, of length] by (simp add: strip_def)
  also have "\<dots> \<le> length ?d"
    using length_dropWhile_le [of isspace "rev ?d"] by simp
  finally have "length ?d = length s"
    using length_dropWhile_le [of isspace s] by simp
  then have d: "?d = s" by (rule dropWhile_same_length)
  with ne hd_dropWhile [of isspace s] have front: "\<not> isspace (hd s)" by simp
  from fixed d have "rev (dropWhile isspace (rev s)) = s" by (simp add: strip_def)
  then have "dropWhile isspace (rev s) = rev s" by (metis rev_rev_ident)
  with ne hd_dropWhile [of isspace "rev s"] have "\<not> isspace (hd (rev s))" by simp
  with ne have "\<not> isspace (last s)" by (simp add: hd_rev)
  with front show ?thesis by simp
qed

lemma asterisk_not_space: "\<not> isspace 42"
  by (simp add: isspace_def)

lemma strip_marker:
  assumes "\<not> isspace (last body)" and "body \<noteq> []"
  shows "strip (42 # ws @ body) = 42 # ws @ body"
proof -
  from assms(2) obtain xs x where body: "body = xs @ [x]"
    by (cases body rule: rev_cases) auto
  with assms(1) have "\<not> isspace x" by simp
  then show ?thesis by (simp add: strip_def body asterisk_not_space)
qed

lemma strip_marker_only:
  assumes "\<forall>c \<in> set ws. isspace c"
  shows "strip (42 # ws) = [42]"
proof -
  have "dropWhile isspace (rev ws @ [42]) = [42]"
    using assms by (simp add: dropWhile_append asterisk_not_space)
  then show ?thesis by (simp add: strip_def asterisk_not_space)
qed

section \<open>Reading one line\<close>

lemmas parse_defs =
  parse_line_def u_def strip_def lstrip_def lstrip_chars_def startswith_def re_split_def
  isspace_def re_sub_name_def is_word_def ascii_alnum_def replace_nul_def Let_def

lemma parse_line_marked:
  assumes fixed: "strip body = body"
    and ws: "\<forall>c \<in> set ws. isspace c"
    and no_marker: "\<not> startswith body [42]"
    and no_bom: "\<not> startswith body [65279]"
  shows "parse_line P (42 # ws @ body) = parse_line P body"
proof (cases "body = []")
  case True
  with ws have "strip (42 # ws @ body) = [42]" by (simp add: strip_marker_only)
  with True show ?thesis
    by (simp add: parse_line_def lstrip_chars_def lstrip_def startswith_def re_split_def
        strip_def)
next
  case False
  with fixed have ends: "\<not> isspace (hd body) \<and> \<not> isspace (last body)"
    by (rule strip_fixed_ends)
  with False have cleaned: "strip (42 # ws @ body) = 42 # ws @ body"
    by (simp add: strip_marker)
  from False obtain y ys where body: "body = y # ys" by (cases body) auto
  with ends no_marker no_bom have y: "\<not> isspace y" "y \<noteq> 42" "y \<noteq> 65279"
    by (simp_all add: startswith_def)
  from ws y have "lstrip (ws @ body) = body"
    by (simp add: lstrip_def body dropWhile_append)
  with cleaned fixed y show ?thesis
    by (simp add: parse_line_def lstrip_chars_def startswith_def body Let_def)
qed

lemma parse_line_mydistro:
  "parse_line P (u ''mydistro   Running   2'') = Some (u ''mydistro'', u ''Running'', u ''2'')"
  by (simp add: parse_defs)

text \<open>
  C2, as the program has it. A line that begins with the asterisk loses it, and the
  whitespace after it, before it is split into fields, and nothing is recorded about
  it: the row is the tuple (name, state, version) that the same line without the
  marker gives (the rest of the line being stripped and not itself beginning with an
  asterisk or U+FEFF). The line \<open>* mydistro   Running   2\<close> gives
  (mydistro, Running, 2).
\<close>

theorem default_marker_removed:
  "(strip body = body \<and> (\<forall>c \<in> set ws. isspace c) \<and> \<not> startswith body [42] \<and>
      \<not> startswith body [65279] \<longrightarrow>
      parse_line P (42 # ws @ body) = parse_line P body) \<and>
   parse_line P (u ''* mydistro   Running   2'') =
     Some (u ''mydistro'', u ''Running'', u ''2'')"
proof (intro conjI impI)
  assume "strip body = body \<and> (\<forall>c \<in> set ws. isspace c) \<and> \<not> startswith body [42] \<and>
      \<not> startswith body [65279]"
  then show "parse_line P (42 # ws @ body) = parse_line P body"
    by (simp add: parse_line_marked)
next
  show "parse_line P (u ''* mydistro   Running   2'') =
     Some (u ''mydistro'', u ''Running'', u ''2'')"
    by (simp add: parse_defs)
qed

theorem default_marker_removed_witness:
  "strip (u ''mydistro   Running   2'') = u ''mydistro   Running   2'' \<and>
   list_all isspace (u '' '') \<and>
   \<not> startswith (u ''mydistro   Running   2'') [42] \<and>
   \<not> startswith (u ''mydistro   Running   2'') [65279] \<and>
   parse_line sample_platform (42 # u '' '' @ u ''mydistro   Running   2'') =
     Some (u ''mydistro'', u ''Running'', u ''2'')"
  using default_marker_removed
    [of "u ''mydistro   Running   2''" "u '' ''" sample_platform]
  by (simp add: parse_line_mydistro) (simp add: u_def strip_def isspace_def startswith_def)

text \<open>
  Against C2 as stated: the row of the marked line is the row of the unmarked line, so
  no default flag has been recorded with it.
\<close>

theorem default_marker_not_recorded:
  "parse_line sample_platform (u ''* mydistro   Running   2'') =
     Some (u ''mydistro'', u ''Running'', u ''2'') \<and>
   parse_line sample_platform (u ''* mydistro   Running   2'') =
     parse_line sample_platform (u ''mydistro   Running   2'')"
  by (simp add: parse_defs)

section \<open>Refreshing the list\<close>

lemma run_command_state:
  "snd (run_command P W a c) = a\<lparr>history := history a @ [Run c]\<rparr>"
  by (simp add: run_command_def Let_def split: proc_result.split)

lemma tree_on_item_select: "tree (snd (on_item_select P a)) = tree a"
  by (simp add: on_item_select_def Let_def split: option.split prod.split pyvalue.split)

lemma error_text_prefixed:
  "startswith (u ''Error: '' @ text) (u ''Error:'')"
  "startswith (u ''Error: Command Error'' @ text) (u ''Error:'')"
  by (simp_all add: startswith_def u_def)

lemma populate_tree:
  "tree (populate_wsl_list P W a) =
     (case subprocess_run W (history a) [u ''wsl'', u ''--list'', u ''--verbose''] of
        Completed out \<Rightarrow>
          if startswith out (u ''Error:'') then []
          else insert_lines P (tl (split_on 10 (strip out))) []
      | _ \<Rightarrow> [])"
  by (simp add: populate_wsl_list_def run_command_def Let_def tree_on_item_select
      error_text_prefixed split: proc_result.split)

lemma example_listing_lines:
  "\<not> startswith example_listing (u ''Error:'') \<and>
   tl (split_on 10 (strip example_listing)) =
     [u ''  Ubuntu    Stopped    2'', u ''* Debian     Running    1'']"
  by (simp add: example_listing_def u_def strip_def isspace_def startswith_def Let_def)

lemma marker_moved_listing_lines:
  "\<not> startswith marker_moved_listing (u ''Error:'') \<and>
   tl (split_on 10 (strip marker_moved_listing)) =
     [u ''* Ubuntu    Stopped    2'', u ''  Debian     Running    1'']"
  by (simp add: marker_moved_listing_def u_def strip_def isspace_def startswith_def Let_def)

lemma parse_line_ubuntu:
  "parse_line P (u ''  Ubuntu    Stopped    2'') = Some (u ''Ubuntu'', u ''Stopped'', u ''2'')"
  by (simp add: parse_defs)

lemma parse_line_debian:
  "parse_line P (u ''* Debian     Running    1'') = Some (u ''Debian'', u ''Running'', u ''1'')"
  by (simp add: parse_defs)

lemma parse_line_ubuntu_marked:
  "parse_line P (u ''* Ubuntu    Stopped    2'') = Some (u ''Ubuntu'', u ''Stopped'', u ''2'')"
  by (simp add: parse_defs)

lemma parse_line_debian_unmarked:
  "parse_line P (u ''  Debian     Running    1'') = Some (u ''Debian'', u ''Running'', u ''1'')"
  by (simp add: parse_defs)

text \<open>
  C3, as the program has it. When the list command prints the example listing, the
  refresh leaves exactly two rows in the tree, in this order: (Ubuntu, Stopped, 2) and
  (Debian, Running, 1). The header line is discarded, and so is the asterisk: a row has
  no default flag.
\<close>

theorem example_listing_rows:
  "tree (populate_wsl_list P (W\<lparr>subprocess_run := \<lambda>h command. Completed example_listing\<rparr>) a) =
     [(u ''Ubuntu'', u ''Stopped'', u ''2''), (u ''Debian'', u ''Running'', u ''1'')]"
  by (simp add: populate_tree example_listing_lines parse_line_ubuntu parse_line_debian)

theorem example_listing_rows_witness:
  "tree (populate_wsl_list sample_platform
           (scripted_world (\<lambda>c. FileNotFoundError)
              \<lparr>subprocess_run := \<lambda>h command. Completed example_listing\<rparr>)
           startup) =
     [(u ''Ubuntu'', u ''Stopped'', u ''2''), (u ''Debian'', u ''Running'', u ''1'')]"
  using example_listing_rows
    [of sample_platform "scripted_world (\<lambda>c. FileNotFoundError)" startup]
  by simp

text \<open>
  Against C3 as stated: with the asterisk moved from the Debian line to the Ubuntu
  line the refresh gives the same rows, so the rows do not tell which instance is the
  default.
\<close>

theorem example_listing_no_default_flag:
  "tree (populate_wsl_list sample_platform (scripted_world (\<lambda>c. Completed example_listing))
           startup) =
     [(u ''Ubuntu'', u ''Stopped'', u ''2''), (u ''Debian'', u ''Running'', u ''1'')] \<and>
   tree (populate_wsl_list sample_platform
           (scripted_world (\<lambda>c. Completed marker_moved_listing)) startup) =
     tree (populate_wsl_list sample_platform (scripted_world (\<lambda>c. Completed example_listing))
             startup)"
  by (simp add: populate_tree scripted_world_def example_listing_lines
      marker_moved_listing_lines parse_line_ubuntu parse_line_debian
      parse_line_ubuntu_marked parse_line_debian_unmarked)

lemma selection_populate:
  "selection (populate_wsl_list P W a) = None"
  by (simp add: populate_wsl_list_def run_command_def Let_def on_item_select_def
      split: proc_result.split)

text \<open>
  C8. The rows after a refresh are a function of what the list command returned (and of
  the platform's tables) alone: whatever the state and the surroundings before, the
  same result gives the same rows, and a second refresh on the same result leaves the
  rows of the first.
\<close>

theorem refresh_deterministic:
  "tree (populate_wsl_list P (W\<lparr>subprocess_run := \<lambda>h command. r\<rparr>) a) =
     tree (populate_wsl_list P (W'\<lparr>subprocess_run := \<lambda>h command. r\<rparr>) a') \<and>
   tree (populate_wsl_list P (W\<lparr>subprocess_run := \<lambda>h command. r\<rparr>)
           (populate_wsl_list P (W\<lparr>subprocess_run := \<lambda>h command. r\<rparr>) a)) =
     tree (populate_wsl_list P (W\<lparr>subprocess_run := \<lambda>h command. r\<rparr>) a)"
  by (simp add: populate_tree)

theorem refresh_deterministic_witness:
  "tree (populate_wsl_list sample_platform
           (scripted_world (\<lambda>c. FileNotFoundError)
              \<lparr>subprocess_run := \<lambda>h command. Completed example_listing\<rparr>)
           startup) =
     tree (populate_wsl_list sample_platform
             (scripted_world (\<lambda>c. OtherException)
                \<lparr>subprocess_run := \<lambda>h command. Completed example_listing\<rparr>)
             (startup\<lparr>tree := [(u ''Old'', u ''Running'', u ''1'')]\<rparr>))"
  using refresh_deterministic
    [where P = sample_platform and W = "scripted_world (\<lambda>c. FileNotFoundError)"
       and r = "Completed example_listing" and a = startup
       and W' = "scripted_world (\<lambda>c. OtherException)"
       and a' = "startup\<lparr>tree := [(u ''Old'', u ''Running'', u ''1'')]\<rparr>"]
  by simp

text \<open>
  C7. A refresh whose list command fails (the executable is missing, the exit status
  is not 0, or the call raises), or whose output begins with \<open>Error:\<close> or is empty
  or blank, leaves no row and no selection, whatever rows there were: the rows are
  deleted before the command is run, and nothing is put back.
\<close>

theorem failed_refresh_empties_tree:
  assumes "subprocess_run W (history a) [u ''wsl'', u ''--list'', u ''--verbose''] = r"
    and "r = FileNotFoundError \<or> (\<exists>stderr. r = CalledProcessError stderr) \<or>
         r = OtherException \<or>
         (\<exists>out. r = Completed out \<and> (startswith out (u ''Error:'') \<or> strip out = []))"
  shows "tree (populate_wsl_list P W a) = [] \<and> selection (populate_wsl_list P W a) = None"
  using assms by (auto simp: populate_tree selection_populate)

theorem failed_refresh_empties_tree_witness:
  "tree (populate_wsl_list sample_platform
           (scripted_world (\<lambda>c. CalledProcessError (u ''access denied'')))
           (startup\<lparr>tree := [(u ''Ubuntu'', u ''Stopped'', u ''2'')],
                    selection := Some (u ''Ubuntu'', u ''Stopped'', u ''2'')\<rparr>)) = [] \<and>
   selection (populate_wsl_list sample_platform
           (scripted_world (\<lambda>c. CalledProcessError (u ''access denied'')))
           (startup\<lparr>tree := [(u ''Ubuntu'', u ''Stopped'', u ''2'')],
                    selection := Some (u ''Ubuntu'', u ''Stopped'', u ''2'')\<rparr>)) = None"
  using failed_refresh_empties_tree
    [where W = "scripted_world (\<lambda>c. CalledProcessError (u ''access denied''))"
       and a = "startup\<lparr>tree := [(u ''Ubuntu'', u ''Stopped'', u ''2'')],
                        selection := Some (u ''Ubuntu'', u ''Stopped'', u ''2'')\<rparr>"
       and r = "CalledProcessError (u ''access denied'')" and P = sample_platform]
  by (simp add: scripted_world_def)

section \<open>The name of an instance\<close>

lemma re_sub_name_kept:
  "c \<in> set (re_sub_name P field) \<Longrightarrow> is_word P c \<or> c = 46 \<or> c = 45"
  by (simp add: re_sub_name_def)

lemma kept_character:
  assumes "is_word P c \<or> c = 46 \<or> c = 45"
  shows "if c < 128 then name_class c else isalnum P c"
  using assms by (auto simp: is_word_def name_class_def)

lemma ascii_space_not_kept:
  assumes "is_word P c \<or> c = 46 \<or> c = 45" and "c < 128"
  shows "\<not> isspace c \<and> c \<noteq> 0"
  using assms by (auto simp: is_word_def ascii_alnum_def isspace_def)

lemma space_not_kept:
  assumes "is_word P c \<or> c = 46 \<or> c = 45" and "\<forall>c. isspace c \<longrightarrow> \<not> isalnum P c"
  shows "\<not> isspace c"
proof (cases "c < 128")
  case True
  with assms(1) show ?thesis by (simp add: ascii_space_not_kept)
next
  case False
  with assms(1) have "isalnum P c" by (auto simp: is_word_def)
  with assms(2) show ?thesis by blast
qed

text \<open>
  C4, as the program has it. The name is cleaned with \<open>[^\<bslash>w.-]\<close>, and \<open>\<bslash>w\<close> of a str
  pattern is Unicode-aware. The name is the raw field without the characters that are
  neither a word character, a dot nor a hyphen, and with all the others, in their
  order: below U+0080 the characters of \<open>[A-Za-z0-9._-]\<close> stay and NUL, the control
  characters and every other ASCII character are removed; from U+0080 on the
  characters that are alphanumeric by the runtime's table stay and the others are
  removed. The name of a raw field of ASCII characters matches \<open>^[A-Za-z0-9._-]*$\<close>.
\<close>

theorem sanitized_name_characters:
  "re_sub_name P field =
     filter (\<lambda>c. if c < 128 then name_class c else isalnum P c) field \<and>
   (\<forall>c \<in> set (re_sub_name P field). if c < 128 then name_class c else isalnum P c) \<and>
   (\<forall>c \<in> set field. name_class c \<longrightarrow> c \<in> set (re_sub_name P field)) \<and>
   (\<forall>c \<in> set field. 128 \<le> c \<and> isalnum P c \<longrightarrow> c \<in> set (re_sub_name P field)) \<and>
   0 \<notin> set (re_sub_name P field) \<and>
   ((\<forall>c \<in> set field. c < 128) \<longrightarrow> matches_name_class (re_sub_name P field))"
proof -
  have kept: "(is_word P c \<or> c = 46 \<or> c = 45) = (if c < 128 then name_class c else isalnum P c)"
    for c
    by (auto simp: is_word_def name_class_def)
  have small: "c < 128" if "name_class c" for c
    using that by (auto simp: name_class_def ascii_alnum_def)
  have eq: "re_sub_name P field =
      filter (\<lambda>c. if c < 128 then name_class c else isalnum P c) field"
    by (simp add: re_sub_name_def kept)
  have left: "\<forall>c \<in> set (re_sub_name P field). if c < 128 then name_class c else isalnum P c"
    by (simp add: eq)
  have ascii_kept: "\<forall>c \<in> set field. name_class c \<longrightarrow> c \<in> set (re_sub_name P field)"
    using small by (auto simp: eq)
  have other_kept:
    "\<forall>c \<in> set field. 128 \<le> c \<and> isalnum P c \<longrightarrow> c \<in> set (re_sub_name P field)"
    by (auto simp: eq)
  have no_nul: "0 \<notin> set (re_sub_name P field)"
    by (simp add: eq name_class_def ascii_alnum_def)
  have ascii: "(\<forall>c \<in> set field. c < 128) \<longrightarrow> matches_name_class (re_sub_name P field)"
    by (auto simp: eq matches_name_class_def list_all_iff)
  from eq left ascii_kept other_kept no_nul ascii show ?thesis by blast
qed

theorem sanitized_name_characters_witness:
  "re_sub_name sample_platform ([0, 65279] @ u ''my distro_1.0-a!'' @ [233]) =
     u ''mydistro_1.0-a'' @ [233] \<and>
   list_all (\<lambda>c. if c < 128 then name_class c else isalnum sample_platform c)
     (re_sub_name sample_platform ([0, 65279] @ u ''my distro_1.0-a!'' @ [233])) \<and>
   233 \<in> set ([0, 65279] @ u ''my distro_1.0-a!'' @ [233]) \<and> isalnum sample_platform 233 \<and>
   233 \<in> set (re_sub_name sample_platform ([0, 65279] @ u ''my distro_1.0-a!'' @ [233])) \<and>
   list_all (\<lambda>c. c < 128) (u ''my distro_1.0-a!'') \<and>
   matches_name_class (re_sub_name sample_platform (u ''my distro_1.0-a!''))"
proof -
  let ?field = "[0, 65279] @ u ''my distro_1.0-a!'' @ [233]"
  let ?keep = "\<lambda>c. if c < 128 then name_class c else isalnum sample_platform c"
  note mixed = sanitized_name_characters [of sample_platform ?field]
  note plain = sanitized_name_characters [of sample_platform "u ''my distro_1.0-a!''"]
  have alnum: "isalnum sample_platform 233"
    by (simp add: sample_platform_def latin1_isalnum_def)
  have field: "233 \<in> set ?field"
    by simp
  have ascii: "\<forall>c \<in> set (u ''my distro_1.0-a!''). c < 128"
    by (simp add: u_def)
  have filtered: "filter ?keep ?field = u ''mydistro_1.0-a'' @ [233]"
    by (simp add: u_def name_class_def ascii_alnum_def sample_platform_def latin1_isalnum_def)
  from mixed have eq: "re_sub_name sample_platform ?field = filter ?keep ?field"
    by (rule conjunct1)
  from eq filtered have name: "re_sub_name sample_platform ?field = u ''mydistro_1.0-a'' @ [233]"
    by (rule trans)
  from mixed have "\<forall>c \<in> set (re_sub_name sample_platform ?field). ?keep c"
    by (rule conjunct1 [OF conjunct2])
  then have left: "list_all ?keep (re_sub_name sample_platform ?field)"
    unfolding list_all_iff .
  from mixed
  have "\<forall>c \<in> set ?field. 128 \<le> c \<and> isalnum sample_platform c \<longrightarrow>
      c \<in> set (re_sub_name sample_platform ?field)"
    by (rule conjunct1 [OF conjunct2 [OF conjunct2 [OF conjunct2]]])
  from bspec [OF this field] alnum
  have kept: "233 \<in> set (re_sub_name sample_platform ?field)"
    by simp
  from ascii have short: "list_all (\<lambda>c. c < 128) (u ''my distro_1.0-a!'')"
    unfolding list_all_iff .
  from plain
  have "(\<forall>c \<in> set (u ''my distro_1.0-a!''). c < 128) \<longrightarrow>
      matches_name_class (re_sub_name sample_platform (u ''my distro_1.0-a!''))"
    by (rule conjunct2 [OF conjunct2 [OF conjunct2 [OF conjunct2 [OF conjunct2]]]])
  from mp [OF this ascii]
  have matches: "matches_name_class (re_sub_name sample_platform (u ''my distro_1.0-a!''))" .
  from name left field alnum kept short matches show ?thesis
    by (intro conjI)
qed

text \<open>
  Against C4 as stated: in the name field \<open>caf\<close> followed by U+00E9 (e with acute) that letter is a word
  character and stays, and the name does not match \<open>^[A-Za-z0-9._-]*$\<close>.
\<close>

theorem sanitized_name_not_ascii:
  "parse_line sample_platform (u ''caf'' @ [233] @ u ''   Stopped   2'') =
     Some (u ''caf'' @ [233], u ''Stopped'', u ''2'') \<and>
   \<not> matches_name_class (u ''caf'' @ [233])"
  by (simp add: parse_defs sample_platform_def latin1_isalnum_def matches_name_class_def
      name_class_def)

lemma parse_line_name:
  assumes "parse_line P line = Some (name, st, v)"
  shows "\<exists>field. name = re_sub_name P field"
  using assms
  by (auto simp: parse_line_def Let_def split: if_splits list.splits)

lemma insert_lines_rows:
  "r \<in> set (insert_lines P lines t) \<Longrightarrow>
     r \<in> set t \<or> (\<exists>line \<in> set lines. parse_line P line = Some r)"
proof (induction lines arbitrary: t)
  case Nil
  then show ?case by simp
next
  case (Cons line lines)
  from Cons.prems Cons.IH [of "case parse_line P line of None \<Rightarrow> t | Some r \<Rightarrow> t @ [r]"]
  show ?case by (auto split: option.splits)
qed

lemma populate_rows:
  assumes "r \<in> set (tree (populate_wsl_list P W a))"
  shows "\<exists>line. parse_line P line = Some r"
proof -
  from assms obtain lines where "r \<in> set (insert_lines P lines [])"
    by (auto simp: populate_tree split: proc_result.splits if_splits)
  then show ?thesis by (auto dest: insert_lines_rows)
qed

lemma contains_single: "contains s [c] \<longleftrightarrow> c \<in> set s"
  by (induction s) (auto simp: startswith_def)

lemma shortcut_unquoted:
  "32 \<notin> set distro_name \<Longrightarrow> shortcut_command distro_name = u ''wsl.exe -d '' @ distro_name"
  using contains_single [of distro_name 32]
  by (simp add: shortcut_command_def u_def)

lemma convert_stringval_cases:
  "convert_stringval P v = Py_str v \<or> (\<exists>n. convert_stringval P v = Py_int n)"
  by (simp add: convert_stringval_def split: option.split)



lemma on_item_select_shortcut:
  "fst (on_item_select P (b\<lparr>selection := Some (name, st, v)\<rparr>)) =
     (convert_stringval P name = Py_str name) \<and>
   shortcut_command_var (snd (on_item_select P (b\<lparr>selection := Some (name, st, v)\<rparr>))) =
     (if convert_stringval P name = Py_str name then shortcut_command name
      else shortcut_command_var b)"
  using convert_stringval_cases [of P name]
  by (auto simp: on_item_select_def item_values_def Let_def)

text \<open>
  C10. A name in the tree after a refresh has no space, no NUL and no ASCII whitespace
  in it, and no whitespace at all when the runtime's table, as Unicode has it, counts
  no whitespace character as alphanumeric. So selecting such a row never gives the
  quoted shortcut: when the name is read back as a string, the test
  \<open>' ' in distro_name\<close> fails and the shortcut is \<open>wsl.exe -d\<close> followed by the bare
  name; when it is read back as an integer, the test raises and the shortcut is left
  as it was.
\<close>

theorem parsed_name_never_quoted:
  assumes "(name, st, v) \<in> set (tree (populate_wsl_list P W a))"
  shows "32 \<notin> set name \<and> 0 \<notin> set name \<and>
         (\<forall>c \<in> set name. c < 128 \<longrightarrow> \<not> isspace c) \<and>
         ((\<forall>c. isspace c \<longrightarrow> \<not> isalnum P c) \<longrightarrow> (\<forall>c \<in> set name. \<not> isspace c)) \<and>
         \<not> contains name (u '' '') \<and>
         fst (on_item_select P (b\<lparr>selection := Some (name, st, v)\<rparr>)) =
           (convert_stringval P name = Py_str name) \<and>
         shortcut_command_var (snd (on_item_select P (b\<lparr>selection := Some (name, st, v)\<rparr>))) =
           (if convert_stringval P name = Py_str name then u ''wsl.exe -d '' @ name
            else shortcut_command_var b)"
proof -
  from assms obtain line where "parse_line P line = Some (name, st, v)"
    by (auto dest: populate_rows)
  then obtain field where name: "name = re_sub_name P field"
    by (auto dest: parse_line_name)
  have kept: "is_word P c \<or> c = 46 \<or> c = 45" if "c \<in> set name" for c
    using that name by (simp add: re_sub_name_kept)
  have ascii: "\<not> isspace c \<and> c \<noteq> 0" if "c \<in> set name" "c < 128" for c
    using that kept ascii_space_not_kept by blast
  have no_space: "32 \<notin> set name"
    using ascii [of 32] by (auto simp: isspace_def)
  have no_nul: "0 \<notin> set name"
    using ascii [of 0] by auto
  have unicode: "\<not> isspace c"
    if "\<forall>c. isspace c \<longrightarrow> \<not> isalnum P c" "c \<in> set name" for c
    using that kept space_not_kept by blast
  have unquoted: "\<not> contains name (u '' '')"
    using no_space contains_single [of name 32] by (simp add: u_def)
  from no_space have bare: "shortcut_command name = u ''wsl.exe -d '' @ name"
    by (rule shortcut_unquoted)
  from on_item_select_shortcut [where P = P and b = b and name = name and st = st and v = v]
    bare
  have selected:
    "fst (on_item_select P (b\<lparr>selection := Some (name, st, v)\<rparr>)) =
       (convert_stringval P name = Py_str name) \<and>
     shortcut_command_var (snd (on_item_select P (b\<lparr>selection := Some (name, st, v)\<rparr>))) =
       (if convert_stringval P name = Py_str name then u ''wsl.exe -d '' @ name
        else shortcut_command_var b)"
    by simp
  from no_space no_nul ascii unicode unquoted selected show ?thesis by blast
qed

lemma sample_isalnum_not_space:
  "isspace c \<Longrightarrow> \<not> isalnum sample_platform c"
  by (auto simp: isspace_def sample_platform_def latin1_isalnum_def)

lemma sample_convert:
  "convert_stringval sample_platform (u ''Ubuntu'') = Py_str (u ''Ubuntu'')"
  "convert_stringval sample_platform (u ''2024'') = Py_int 2024"
  "convert_stringval sample_platform (u ''Stopped'') = Py_str (u ''Stopped'')"
  "convert_stringval sample_platform (u ''2'') = Py_int 2"
  by (simp_all add: convert_stringval_def py_int_def ascii_int_def ascii_space_def
      ascii_digit_def u_def)

lemma numeric_listing_rows:
  "tree (populate_wsl_list P (scripted_world (\<lambda>c. Completed numeric_listing)) a) =
     [(u ''2024'', u ''Stopped'', u ''2'')]"
proof -
  have "\<not> startswith numeric_listing (u ''Error:'') \<and>
      tl (split_on 10 (strip numeric_listing)) = [u ''* 2024   Stopped   2'']"
    by (simp add: numeric_listing_def u_def strip_def isspace_def startswith_def Let_def)
  moreover have "parse_line P (u ''* 2024   Stopped   2'') =
      Some (u ''2024'', u ''Stopped'', u ''2'')"
    by (simp add: parse_defs)
  ultimately show ?thesis
    by (simp add: populate_tree scripted_world_def)
qed

theorem parsed_name_never_quoted_witness:
  "(u ''Ubuntu'', u ''Stopped'', u ''2'') \<in>
     set (tree (populate_wsl_list sample_platform
                  (scripted_world (\<lambda>c. Completed example_listing)) startup)) \<and>
   list_all (\<lambda>c. \<not> isspace c \<and> c \<noteq> 0) (u ''Ubuntu'') \<and>
   on_item_select sample_platform
     (startup\<lparr>selection := Some (u ''Ubuntu'', u ''Stopped'', u ''2'')\<rparr>) =
     (True,
      startup\<lparr>selection := Some (u ''Ubuntu'', u ''Stopped'', u ''2''),
              terminal_button := True, start_button := True, rename_button := True,
              shortcut_command_var := u ''wsl.exe -d Ubuntu''\<rparr>) \<and>
   (u ''2024'', u ''Stopped'', u ''2'') \<in>
     set (tree (populate_wsl_list sample_platform
                  (scripted_world (\<lambda>c. Completed numeric_listing)) startup)) \<and>
   on_item_select sample_platform
     (startup\<lparr>selection := Some (u ''2024'', u ''Stopped'', u ''2'')\<rparr>) =
     (False,
      startup\<lparr>selection := Some (u ''2024'', u ''Stopped'', u ''2''),
              terminal_button := True, start_button := True, rename_button := True\<rparr>)"
proof -
  let ?ubuntu = "(u ''Ubuntu'', u ''Stopped'', u ''2'')"
  let ?numeric = "(u ''2024'', u ''Stopped'', u ''2'')"
  have row: "?ubuntu \<in>
     set (tree (populate_wsl_list sample_platform
                  (scripted_world (\<lambda>c. Completed example_listing)) startup))"
    by (simp add: populate_tree scripted_world_def example_listing_lines
        parse_line_ubuntu parse_line_debian)
  have row': "?numeric \<in>
     set (tree (populate_wsl_list sample_platform
                  (scripted_world (\<lambda>c. Completed numeric_listing)) startup))"
    by (simp add: numeric_listing_rows)
  from parsed_name_never_quoted [OF row, of startup] sample_isalnum_not_space
  have name: "(\<forall>c \<in> set (u ''Ubuntu''). \<not> isspace c) \<and> 0 \<notin> set (u ''Ubuntu'')"
    and selected:
      "fst (on_item_select sample_platform (startup\<lparr>selection := Some ?ubuntu\<rparr>)) \<and>
       shortcut_command_var
         (snd (on_item_select sample_platform (startup\<lparr>selection := Some ?ubuntu\<rparr>))) =
         u ''wsl.exe -d '' @ u ''Ubuntu''"
    by (simp_all add: sample_convert)
  from parsed_name_never_quoted [OF row', of startup]
  have raised:
      "\<not> fst (on_item_select sample_platform (startup\<lparr>selection := Some ?numeric\<rparr>)) \<and>
       shortcut_command_var
         (snd (on_item_select sample_platform (startup\<lparr>selection := Some ?numeric\<rparr>))) =
         shortcut_command_var startup"
    by (simp add: sample_convert)
  have ubuntu: "on_item_select sample_platform (startup\<lparr>selection := Some ?ubuntu\<rparr>) =
     (True,
      startup\<lparr>selection := Some ?ubuntu,
              terminal_button := True, start_button := True, rename_button := True,
              shortcut_command_var := u ''wsl.exe -d Ubuntu''\<rparr>)"
    using selected
    by (simp add: on_item_select_def item_values_def sample_convert Let_def startup_def
        shortcut_command_def)
       (simp add: u_def startswith_def)
  have numeric: "on_item_select sample_platform (startup\<lparr>selection := Some ?numeric\<rparr>) =
     (False,
      startup\<lparr>selection := Some ?numeric,
              terminal_button := True, start_button := True, rename_button := True\<rparr>)"
    using raised
    by (simp add: on_item_select_def item_values_def sample_convert Let_def startup_def)
  have "list_all (\<lambda>c. \<not> isspace c \<and> c \<noteq> 0) (u ''Ubuntu'')"
    using name unfolding list_all_iff by metis
  with row row' ubuntu numeric show ?thesis
    by simp
qed

section \<open>Renaming\<close>

lemma history_populate:
  "history (populate_wsl_list P W a) =
     history a @ [Run [u ''wsl'', u ''--list'', u ''--verbose'']]"
  by (simp add: populate_wsl_list_def run_command_def Let_def on_item_select_def
      split: proc_result.split option.split prod.split)

lemma run_command_result:
  "fst (run_command P W a c) =
     (case subprocess_run W (history a) c of
        Completed stdout \<Rightarrow> Some stdout
      | FileNotFoundError \<Rightarrow> Some (u ''Error: '' @ get_string P (u ''error_wsl_not_found'') [])
      | CalledProcessError stderr \<Rightarrow> Some (u ''Error: Command Error'' @ [10] @ stderr)
      | OtherException \<Rightarrow> None)"
  by (simp add: run_command_def Let_def split: proc_result.split)

lemma run_command_pair:
  "run_command P W a c = (fst (run_command P W a c), a\<lparr>history := history a @ [Run c]\<rparr>)"
  using run_command_state [of P W a c] by (simp add: prod_eq_iff)

lemma startswith_nonempty: "startswith s (u ''Error:'') \<Longrightarrow> s \<noteq> []"
  by (auto simp: startswith_def u_def)

text \<open>
  C6. When the export fails (the executable is missing, the exit status is not 0, the
  call raises, or the output begins with \<open>Error:\<close>), the worker has run the export
  command and nothing else: no unregister, no import, no directory made and no removal
  of the archive.
\<close>

theorem export_failure_stops:
  assumes "subprocess_run W (history a)
             [u ''wsl'', u ''--export'', old_name, export_file P old_name] = r"
    and "r = FileNotFoundError \<or> (\<exists>stderr. r = CalledProcessError stderr) \<or>
         r = OtherException \<or> (\<exists>out. r = Completed out \<and> startswith out (u ''Error:''))"
  shows "history (rename_worker P W a old_name new_name) =
           history a @ [Run [u ''wsl'', u ''--export'', old_name, export_file P old_name]]"
proof -
  let ?export = "[u ''wsl'', u ''--export'', old_name, export_file P old_name]"
  from assms have "fst (run_command P W a ?export) = None \<or>
      (\<exists>text. fst (run_command P W a ?export) = Some text \<and> startswith text (u ''Error:''))"
    by (auto simp: run_command_result error_text_prefixed)
  then show ?thesis
    by (subst rename_worker_def, subst run_command_pair)
       (auto simp: startswith_nonempty)
qed

theorem export_failure_stops_witness:
  "history (rename_worker sample_platform (scripted_world (\<lambda>c. CalledProcessError (u ''denied'')))
              startup (u ''Ubuntu'') (u ''Ubuntu2'')) =
     [Run [u ''wsl'', u ''--export'', u ''Ubuntu'', export_file sample_platform (u ''Ubuntu'')]]"
  using export_failure_stops
    [where W = "scripted_world (\<lambda>c. CalledProcessError (u ''denied''))" and a = startup
       and old_name = "u ''Ubuntu''" and P = sample_platform
       and r = "CalledProcessError (u ''denied'')" and new_name = "u ''Ubuntu2''"]
  by (simp add: scripted_world_def startup_def)

lemma sample_export_file:
  "export_file sample_platform (u ''Ubuntu'') = u ''C:'' @ [92] @ u ''Temp'' @ [92] @ u ''Ubuntu_export.tar''"
  by (simp add: export_file_def sample_platform_def u_def)

lemma error_text_nonempty:
  "u ''Error: '' \<noteq> []"
  "u ''Error: Command Error'' \<noteq> []"
  by (simp_all add: u_def)

text \<open>
  C1, as the program has it. When the export has succeeded and the unregister command
  fails (the executable is missing or the exit status is not 0), the worker stops
  there, having removed the temporary archive: it has run the export, the unregister
  and \<open>os.remove\<close> on the archive, and no import. The message is \<open>Unregister failed:\<close>
  and, on the next line, the error text of the command; the worker adds no path to it.
\<close>

theorem unregister_failure_removes_archive:
  assumes "subprocess_run W (history a)
             [u ''wsl'', u ''--export'', old_name, export_file P old_name] = Completed out"
    and "\<not> startswith out (u ''Error:'')"
    and "subprocess_run W
           (history a @ [Run [u ''wsl'', u ''--export'', old_name, export_file P old_name]])
           [u ''wsl'', u ''--unregister'', old_name] = r"
    and "r = FileNotFoundError \<or> r = CalledProcessError stderr"
  shows "history (rename_worker P W a old_name new_name) =
           history a @
           [Run [u ''wsl'', u ''--export'', old_name, export_file P old_name],
            Run [u ''wsl'', u ''--unregister'', old_name],
            Remove (export_file P old_name)] \<and>
         rename_result (rename_worker P W a old_name new_name) =
           Some (u ''Unregister failed:'' @ [10] @
                 (if r = FileNotFoundError
                  then u ''Error: '' @ get_string P (u ''error_wsl_not_found'') []
                  else u ''Error: Command Error'' @ [10] @ stderr))"
  using assms
  by (auto simp: rename_worker_def run_command_def remove_def Let_def error_text_prefixed
      error_text_nonempty)

theorem unregister_failure_removes_archive_witness:
  "history (rename_worker sample_platform (scripted_world unregister_fails) startup
              (u ''Ubuntu'') (u ''Ubuntu2'')) =
     [Run [u ''wsl'', u ''--export'', u ''Ubuntu'', export_file sample_platform (u ''Ubuntu'')],
      Run [u ''wsl'', u ''--unregister'', u ''Ubuntu''],
      Remove (export_file sample_platform (u ''Ubuntu''))] \<and>
   rename_result (rename_worker sample_platform (scripted_world unregister_fails) startup
                    (u ''Ubuntu'') (u ''Ubuntu2'')) =
     Some (u ''Unregister failed:'' @ [10] @ u ''Error: Command Error'' @ [10] @ u ''denied'')"
  using unregister_failure_removes_archive
    [where W = "scripted_world unregister_fails" and a = startup
       and old_name = "u ''Ubuntu''" and P = sample_platform and out = "[]"
       and r = "CalledProcessError (u ''denied'')" and stderr = "u ''denied''"
       and new_name = "u ''Ubuntu2''"]
  by (simp add: scripted_world_def startup_def unregister_fails_def startswith_def)
     (simp add: u_def)

text \<open>
  Against C1 as stated: after a successful export and a failed unregister the worker
  has called \<open>os.remove\<close> on the archive, and the message does not contain the path of
  the archive.
\<close>

theorem unregister_failure_archive_not_kept:
  "last (history (rename_worker sample_platform (scripted_world unregister_fails) startup
                    (u ''Ubuntu'') (u ''Ubuntu2''))) =
     Remove (u ''C:'' @ [92] @ u ''Temp'' @ [92] @ u ''Ubuntu_export.tar'') \<and>
   rename_result (rename_worker sample_platform (scripted_world unregister_fails) startup
                    (u ''Ubuntu'') (u ''Ubuntu2'')) =
     Some (u ''Unregister failed:'' @ [10] @ u ''Error: Command Error'' @ [10] @ u ''denied'') \<and>
   \<not> contains (u ''Unregister failed:'' @ [10] @ u ''Error: Command Error'' @ [10] @ u ''denied'')
        (export_file sample_platform (u ''Ubuntu''))"
proof (intro conjI)
  let ?a = "rename_worker sample_platform (scripted_world unregister_fails) startup
              (u ''Ubuntu'') (u ''Ubuntu2'')"
  have run: "history ?a =
      [Run [u ''wsl'', u ''--export'', u ''Ubuntu'', export_file sample_platform (u ''Ubuntu'')],
       Run [u ''wsl'', u ''--unregister'', u ''Ubuntu''],
       Remove (export_file sample_platform (u ''Ubuntu''))] \<and>
     rename_result ?a =
       Some (u ''Unregister failed:'' @ [10] @ u ''Error: Command Error'' @ [10] @ u ''denied'')"
    by (simp add: rename_worker_def run_command_def remove_def Let_def scripted_world_def
        startup_def unregister_fails_def startswith_def)
       (simp add: u_def)
  from run show "last (history ?a) =
      Remove (u ''C:'' @ [92] @ u ''Temp'' @ [92] @ u ''Ubuntu_export.tar'')"
    by (simp add: sample_export_file)
  from run show "rename_result ?a =
      Some (u ''Unregister failed:'' @ [10] @ u ''Error: Command Error'' @ [10] @ u ''denied'')"
    by simp
  show "\<not> contains (u ''Unregister failed:'' @ [10] @ u ''Error: Command Error'' @ [10] @ u ''denied'')
        (export_file sample_platform (u ''Ubuntu''))"
    unfolding sample_export_file by (simp add: u_def startswith_def)
qed







text \<open>
  C9. Once the worker has ended with a result message, the message is shown in an
  error dialog if its lower-case form contains \<open>failed\<close>, and in an information
  dialog titled \<open>Success\<close> otherwise; nothing else decides it. The list is then
  refreshed. So a rename that succeeded is reported as an error when the success
  message contains \<open>failed\<close> in any case, as it does when the new name does.
\<close>

theorem result_dialog_by_substring:
  assumes "rename_result a = Some message"
  shows "history (check_rename_status P W a) =
           history a @
           [if contains (lower P message) (u ''failed'')
            then Showerror (get_string P (u ''error_title'') []) message
            else Showinfo (u ''Success'') message,
            Run [u ''wsl'', u ''--list'', u ''--verbose'']]"
  using assms
  by (simp add: check_rename_status_def history_populate showerror_def showinfo_def)

theorem result_dialog_by_substring_witness:
  "rename_result (rename_worker sample_platform (scripted_world (\<lambda>c. Completed [])) startup
                    (u ''Ubuntu'') (u ''Failed-vm'')) =
     Some (u ''Renamed to Failed-vm'') \<and>
   last (butlast (history (check_rename_status sample_platform
                   (scripted_world (\<lambda>c. Completed []))
                   (rename_worker sample_platform (scripted_world (\<lambda>c. Completed [])) startup
                      (u ''Ubuntu'') (u ''Failed-vm''))))) =
     Showerror (u ''error_title'') (u ''Renamed to Failed-vm'')"
proof -
  let ?W = "scripted_world (\<lambda>c. Completed [])"
  let ?a = "rename_worker sample_platform ?W startup (u ''Ubuntu'') (u ''Failed-vm'')"
  have result: "rename_result ?a = Some (u ''Renamed to Failed-vm'')"
    by (simp add: rename_worker_def run_command_def remove_def makedirs_def Let_def
        scripted_world_def get_string_def)
       (simp add: sample_platform_def sample_lang_data_def u_def)
  have failed: "contains (lower sample_platform (u ''Renamed to Failed-vm'')) (u ''failed'')"
    by (simp add: lower_def ascii_lower_def u_def startswith_def)
  have title: "get_string sample_platform (u ''error_title'') [] = u ''error_title''"
    by (simp add: get_string_def sample_platform_def sample_lang_data_def u_def)
  from result_dialog_by_substring [OF result, of sample_platform ?W] failed title
  have "history (check_rename_status sample_platform ?W ?a) =
          history ?a @
          [Showerror (u ''error_title'') (u ''Renamed to Failed-vm''),
           Run [u ''wsl'', u ''--list'', u ''--verbose'']]"
    by simp
  then have "last (butlast (history (check_rename_status sample_platform ?W ?a))) =
      Showerror (u ''error_title'') (u ''Renamed to Failed-vm'')"
    by (simp add: butlast_append)
  with result show ?thesis by simp
qed

end
